theory Spec2Isabelle
  imports Complex_Main "HOL-Library.Log_Nat"
begin

section \<open>The invoice generator (generate-invoice.py)\<close>

text \<open>
  A shallow embedding of \<^verbatim>\<open>generate-invoice.py\<close>. The script is Python, so the
  first part of the theory fixes the fragment of Python it relies on: strings and their methods,
  \<^verbatim>\<open>int()\<close> and \<^verbatim>\<open>float()\<close> on text, the arithmetic of \<^verbatim>\<open>int\<close> and
  \<^verbatim>\<open>float\<close> values, and the format specifications \<^verbatim>\<open>03d\<close>, \<^verbatim>\<open>.0f\<close> and
  \<^verbatim>\<open>.2f\<close>. The second part translates the functions of the script one by one.

  Conventions.
  \<^item> A Python \<^verbatim>\<open>str\<close> is a \<^typ>\<open>string\<close>: the list of its code points, for code points
    below 256 (the characters of \<^typ>\<open>char\<close>).
  \<^item> A Python \<^verbatim>\<open>int\<close> is an \<^typ>\<open>int\<close>; a Python \<^verbatim>\<open>float\<close> is an IEEE 754
    binary64 value, given by its exact rational value or as one of the special values.
  \<^item> An exception is a value of \<open>py_error\<close>; a function that may raise returns
    \<open>py_error + 'a\<close>, with \<open>Inl\<close> for the exception.
  \<^item> Files, standard input and the clock are fields of a record \<open>world\<close>; a function with
    effects takes the world and returns its result together with the world it leaves behind,
    also when it raises.
  \<^item> What the script prints is not modelled.
\<close>

subsection \<open>Exceptions\<close>

text \<open>
  The exceptions the modelled code can raise. \<open>ValueError\<close> carries the text that the
  exception's message quotes: the argument of \<^verbatim>\<open>int()\<close> or \<^verbatim>\<open>float()\<close> that could not
  be converted (\<^verbatim>\<open>invalid literal for int() with base 10: '...'\<close>,
  \<^verbatim>\<open>could not convert string to float: '...'\<close>); for the other \<open>ValueError\<close>s of the
  script (\<^verbatim>\<open>int(nan)\<close>, the format code \<^verbatim>\<open>d\<close> on a float) the text is the message
  itself, without its quotation marks. \<open>JSONDecodeError\<close> is the exception of \<^verbatim>\<open>json.load\<close> on text that is not JSON;
  it carries no part of the file. \<open>KeyError\<close> carries the missing key.
\<close>

datatype py_error =
    ValueError string
  | JSONDecodeError
  | KeyError string
  | TypeError
  | OverflowError
  | EOFError
  | FileNotFoundError string

definition ebind :: "py_error + 'a \<Rightarrow> ('a \<Rightarrow> py_error + 'b) \<Rightarrow> py_error + 'b" where
  "ebind m f = (case m of Inl e \<Rightarrow> Inl e | Inr x \<Rightarrow> f x)"

subsection \<open>Strings\<close>

definition ord :: "char \<Rightarrow> nat" where
  "ord c = of_char c"

text \<open>\<^verbatim>\<open>str.isspace\<close> on one character: the code points below 256 that Unicode classes as
  white space.\<close>

definition isspace :: "char \<Rightarrow> bool" where
  "isspace c = (let n = ord c in (9 \<le> n \<and> n \<le> 13) \<or> (28 \<le> n \<and> n \<le> 32) \<or> n = 133 \<or> n = 160)"

text \<open>\<^verbatim>\<open>str.isalnum\<close> on one character: letters, decimal digits and the other numeric
  characters below 256 (superscript digits, vulgar fractions).\<close>

definition isalnum :: "char \<Rightarrow> bool" where
  "isalnum c = (let n = ord c in
     (48 \<le> n \<and> n \<le> 57) \<or> (65 \<le> n \<and> n \<le> 90) \<or> (97 \<le> n \<and> n \<le> 122) \<or>
     n = 170 \<or> n = 178 \<or> n = 179 \<or> n = 181 \<or> n = 185 \<or> n = 186 \<or>
     (188 \<le> n \<and> n \<le> 190) \<or> (192 \<le> n \<and> n \<le> 214) \<or> (216 \<le> n \<and> n \<le> 246) \<or>
     (248 \<le> n \<and> n \<le> 255))"

definition isdigit :: "char \<Rightarrow> bool" where
  "isdigit c = (let n = ord c in 48 \<le> n \<and> n \<le> 57)"

text \<open>\<^verbatim>\<open>s.strip()\<close>: white space removed at both ends.\<close>

definition strip :: "string \<Rightarrow> string" where
  "strip s = rev (dropWhile isspace (rev (dropWhile isspace s)))"

text \<open>\<^verbatim>\<open>s.split(sep)\<close> for a separator of one character: the pieces between the
  separators, empty pieces included; never the empty list.\<close>

fun split :: "char \<Rightarrow> string \<Rightarrow> string list" where
  "split sep [] = [[]]"
| "split sep (c # cs) =
     (if c = sep then [] # split sep cs
      else (case split sep cs of p # ps \<Rightarrow> (c # p) # ps | [] \<Rightarrow> [[c]]))"

text \<open>\<^verbatim>\<open>s.replace(old, "")\<close> and \<^verbatim>\<open>s.replace(old, new)\<close> for single characters.\<close>

definition remove_char :: "char \<Rightarrow> string \<Rightarrow> string" where
  "remove_char old s = filter (\<lambda>c. c \<noteq> old) s"

definition replace_char :: "char \<Rightarrow> char \<Rightarrow> string \<Rightarrow> string" where
  "replace_char old new s = map (\<lambda>c. if c = old then new else c) s"

text \<open>\<^verbatim>\<open>s.lower()\<close>, used on ASCII text only.\<close>

definition lower_char :: "char \<Rightarrow> char" where
  "lower_char c = (let n = ord c in if 65 \<le> n \<and> n \<le> 90 then char_of (n + 32) else c)"

subsection \<open>Integers as text\<close>

definition digit_char :: "nat \<Rightarrow> char" where
  "digit_char d = char_of (48 + d)"

definition digit_val :: "char \<Rightarrow> nat" where
  "digit_val c = ord c - 48"

text \<open>The decimal digits of a natural number, most significant first, without leading zeros
  (\<^verbatim>\<open>str(n)\<close> for \<open>n \<ge> 0\<close>).\<close>

fun digits_of_nat :: "nat \<Rightarrow> string" where
  "digits_of_nat n = (if n < 10 then [digit_char n] else digits_of_nat (n div 10) @ [digit_char (n mod 10)])"

declare digits_of_nat.simps [simp del]

definition nat_of_digits :: "string \<Rightarrow> nat" where
  "nat_of_digits ds = foldl (\<lambda>a c. 10 * a + digit_val c) 0 ds"

text \<open>\<^verbatim>\<open>str(i)\<close> for an \<^verbatim>\<open>int\<close>.\<close>

definition str_int :: "int \<Rightarrow> string" where
  "str_int i = (if i < 0 then CHR ''-'' # digits_of_nat (nat (- i)) else digits_of_nat (nat i))"

definition zero_pad :: "nat \<Rightarrow> string \<Rightarrow> string" where
  "zero_pad w ds = replicate (w - length ds) CHR ''0'' @ ds"

text \<open>\<^verbatim>\<open>f"{i:03d}"\<close> for an \<^verbatim>\<open>int\<close>: the sign first, then the digits padded with
  zeros so that the whole text has at least three characters; longer numbers are left as they
  are.\<close>

definition format_03d :: "int \<Rightarrow> string" where
  "format_03d i =
     (if i < 0 then CHR ''-'' # zero_pad 2 (digits_of_nat (nat (- i)))
      else zero_pad 3 (digits_of_nat (nat i)))"

text \<open>
  The white space that \<^verbatim>\<open>int()\<close> and \<^verbatim>\<open>float()\<close> skip around a number. It is white space
  of \<^verbatim>\<open>str.isspace\<close>, without the four separator controls 28 to 31, which CPython leaves in
  place.
\<close>

definition isspace_num :: "char \<Rightarrow> bool" where
  "isspace_num c = (let n = ord c in (9 \<le> n \<and> n \<le> 13) \<or> n = 32 \<or> n = 133 \<or> n = 160)"

definition strip_num :: "string \<Rightarrow> string" where
  "strip_num s = rev (dropWhile isspace_num (rev (dropWhile isspace_num s)))"

text \<open>A leading sign: whether it is a minus, and the rest.\<close>

definition split_sign :: "string \<Rightarrow> bool \<times> string" where
  "split_sign s =
     (case s of
        c # cs \<Rightarrow> if c = CHR ''-'' then (True, cs) else if c = CHR ''+'' then (False, cs) else (False, s)
      | [] \<Rightarrow> (False, s))"

text \<open>
  Underscores in a numeric literal: each one must stand between two digits, and is then dropped.
  The first argument is the character before the rest.
\<close>

fun strip_underscores :: "char \<Rightarrow> string \<Rightarrow> string option" where
  "strip_underscores prev [] = Some []"
| "strip_underscores prev (c # cs) =
     (if c = CHR ''_'' then
        (case cs of
           [] \<Rightarrow> None
         | d # _ \<Rightarrow> if isdigit prev \<and> isdigit d then strip_underscores c cs else None)
      else map_option ((#) c) (strip_underscores c cs))"

text \<open>\<^verbatim>\<open>int(s)\<close> for a string, base 10: white space around, an optional sign, decimal
  digits with single underscores between them. The 4300-digit limit of recent CPython versions
  is not modelled.\<close>

definition py_int :: "string \<Rightarrow> py_error + int" where
  "py_int s =
     (case split_sign (strip_num s) of (neg, body) \<Rightarrow>
        (case strip_underscores CHR '' '' body of
           None \<Rightarrow> Inl (ValueError s)
         | Some ds \<Rightarrow>
             if ds \<noteq> [] \<and> list_all isdigit ds
             then Inr (if neg then - int (nat_of_digits ds) else int (nat_of_digits ds))
             else Inl (ValueError s)))"

subsection \<open>Floats\<close>

text \<open>
  A Python \<^verbatim>\<open>float\<close> is an IEEE 754 binary64 value: a finite value, given by the rational
  number it stands for (\<open>Finite 0\<close> is \<open>+0.0\<close>), the negative zero, an infinity, or a NaN.
  Arithmetic computes the exact rational result and rounds it to the nearest representable
  value, ties to the even significand, as the hardware does.
\<close>

datatype pyfloat = Finite rat | NegZero | PosInf | NegInf | NaN

definition pow2 :: "int \<Rightarrow> rat" where
  "pow2 k = (if 0 \<le> k then 2 ^ nat k else 1 / 2 ^ nat (- k))"

definition pow10 :: "int \<Rightarrow> rat" where
  "pow10 k = (if 0 \<le> k then 10 ^ nat k else 1 / 10 ^ nat (- k))"

text \<open>Rounding a rational to the nearest integer, ties to even.\<close>

definition round_half_even :: "rat \<Rightarrow> int" where
  "round_half_even q =
     (let f = \<lfloor>q\<rfloor>; r = q - of_int f in
      if r < 1 / 2 then f else if 1 / 2 < r then f + 1 else if even f then f else f + 1)"

text \<open>For \<open>a > 0\<close>, the integer \<open>k\<close> with \<open>2 ^ k \<le> a < 2 ^ (k + 1)\<close>.\<close>

definition ilog2 :: "rat \<Rightarrow> int" where
  "ilog2 a =
     (case quotient_of a of (p, q) \<Rightarrow>
        (let k = bitlen p - bitlen q in if pow2 k \<le> a then k else k - 1))"

text \<open>
  The binary64 value nearest to a rational: 53 significant bits, exponents down to the
  subnormal range (unit \<open>2 ^ -1074\<close>), an infinity from \<open>2 ^ 1024\<close> on. A non-zero rational
  that rounds to zero keeps its sign.
\<close>

definition round_double :: "rat \<Rightarrow> pyfloat" where
  "round_double q =
     (if q = 0 then Finite 0
      else
        (let a = \<bar>q\<bar>;
             e = max (ilog2 a - 52) (- 1074);
             m = round_half_even (a / pow2 e);
             v = of_int m * pow2 e
         in if pow2 1024 \<le> v then (if q < 0 then NegInf else PosInf)
            else if m = 0 then (if q < 0 then NegZero else Finite 0)
            else Finite (if q < 0 then - v else v)))"

definition is_negative :: "pyfloat \<Rightarrow> bool" where
  "is_negative x = (case x of Finite q \<Rightarrow> q < 0 | NegZero \<Rightarrow> True | NegInf \<Rightarrow> True | _ \<Rightarrow> False)"

text \<open>The rational value of a finite float (both zeros are 0).\<close>

definition rat_of_float :: "pyfloat \<Rightarrow> rat option" where
  "rat_of_float x = (case x of Finite q \<Rightarrow> Some q | NegZero \<Rightarrow> Some 0 | _ \<Rightarrow> None)"

text \<open>Float multiplication \<^verbatim>\<open>x * y\<close>. It never raises: overflow gives an infinity.\<close>

definition float_mul :: "pyfloat \<Rightarrow> pyfloat \<Rightarrow> pyfloat" where
  "float_mul x y =
     (let neg = (is_negative x \<noteq> is_negative y) in
      if x = NaN \<or> y = NaN then NaN
      else
        (case (rat_of_float x, rat_of_float y) of
           (Some a, Some b) \<Rightarrow>
             if a * b = 0 then (if neg then NegZero else Finite 0) else round_double (a * b)
         | (Some a, None) \<Rightarrow> if a = 0 then NaN else if neg then NegInf else PosInf
         | (None, Some b) \<Rightarrow> if b = 0 then NaN else if neg then NegInf else PosInf
         | (None, None) \<Rightarrow> if neg then NegInf else PosInf))"

text \<open>Float addition \<^verbatim>\<open>x + y\<close>. An exact zero sum is \<open>+0.0\<close>, unless both operands are
  \<open>-0.0\<close>.\<close>

definition float_add :: "pyfloat \<Rightarrow> pyfloat \<Rightarrow> pyfloat" where
  "float_add x y =
     (if x = NaN \<or> y = NaN then NaN
      else
        (case (rat_of_float x, rat_of_float y) of
           (Some a, Some b) \<Rightarrow>
             if x = NegZero \<and> y = NegZero then NegZero
             else if a + b = 0 then Finite 0
             else round_double (a + b)
         | (Some a, None) \<Rightarrow> y
         | (None, Some b) \<Rightarrow> x
         | (None, None) \<Rightarrow> if x = y then x else NaN))"

text \<open>\<^verbatim>\<open>float(n)\<close> for an \<^verbatim>\<open>int\<close>, also the conversion Python applies to the
  \<^verbatim>\<open>int\<close> operand of mixed arithmetic: the nearest float, or \<^verbatim>\<open>OverflowError\<close> when
  the integer is too large.\<close>

definition float_of_int :: "int \<Rightarrow> py_error + pyfloat" where
  "float_of_int n =
     (case round_double (of_int n) of
        PosInf \<Rightarrow> Inl OverflowError
      | NegInf \<Rightarrow> Inl OverflowError
      | x \<Rightarrow> Inr x)"

text \<open>
  The decimal part of a float literal, after the sign, with underscores removed: digits, an
  optional point with more digits, an optional exponent; at least one digit before the
  exponent, and at least one in it. The result is the digit string read as a natural number,
  and the power of ten to scale it by.
\<close>

definition parse_decimal :: "string \<Rightarrow> (nat \<times> int) option" where
  "parse_decimal u =
     (let ds1 = takeWhile isdigit u; r1 = dropWhile isdigit u;
          has_point = (r1 \<noteq> [] \<and> hd r1 = CHR ''.'');
          ds2 = (if has_point then takeWhile isdigit (tl r1) else []);
          r2 = (if has_point then dropWhile isdigit (tl r1) else r1)
      in if ds1 = [] \<and> ds2 = [] then None
         else if r2 = [] then Some (nat_of_digits (ds1 @ ds2), - int (length ds2))
         else if hd r2 = CHR ''e'' \<or> hd r2 = CHR ''E'' then
           (case split_sign (tl r2) of (neg, ds3) \<Rightarrow>
              if ds3 \<noteq> [] \<and> list_all isdigit ds3
              then Some (nat_of_digits (ds1 @ ds2),
                         (if neg then - int (nat_of_digits ds3) else int (nat_of_digits ds3))
                           - int (length ds2))
              else None)
         else None)"

text \<open>\<^verbatim>\<open>float(s)\<close> for a string: white space around, an optional sign, then
  \<^verbatim>\<open>inf\<close>, \<^verbatim>\<open>infinity\<close> or \<^verbatim>\<open>nan\<close> in any case, or a decimal literal, which is rounded
  to the nearest float.\<close>

definition py_float :: "string \<Rightarrow> py_error + pyfloat" where
  "py_float s =
     (case split_sign (strip_num s) of (neg, body) \<Rightarrow>
        if map lower_char body = ''inf'' \<or> map lower_char body = ''infinity''
        then Inr (if neg then NegInf else PosInf)
        else if map lower_char body = ''nan'' then Inr NaN
        else
          (case strip_underscores CHR '' '' body of
             None \<Rightarrow> Inl (ValueError s)
           | Some u \<Rightarrow>
               (case parse_decimal u of
                  None \<Rightarrow> Inl (ValueError s)
                | Some (m, e) \<Rightarrow>
                    if m = 0 then Inr (if neg then NegZero else Finite 0)
                    else Inr (round_double ((if neg then - 1 else 1) * of_nat m * pow10 e)))))"

text \<open>
  \<^verbatim>\<open>f"{x:.pf}"\<close> for a float: the exact value rounded to \<open>p\<close> decimals, ties to even; a
  minus sign for every negative float, also when it rounds to zero; a point followed by
  exactly \<open>p\<close> digits when \<open>p > 0\<close>, and no point when \<open>p = 0\<close>.
\<close>

definition format_f :: "nat \<Rightarrow> pyfloat \<Rightarrow> string" where
  "format_f p x =
     (case rat_of_float x of
        None \<Rightarrow> (if x = PosInf then ''inf'' else if x = NegInf then ''-inf'' else ''nan'')
      | Some q \<Rightarrow>
          (let n = nat (round_half_even (\<bar>q\<bar> * 10 ^ p)) in
           (if is_negative x then [CHR ''-''] else [])
           @ digits_of_nat (n div 10 ^ p)
           @ (if p = 0 then [] else CHR ''.'' # zero_pad p (digits_of_nat (n mod 10 ^ p)))))"

subsection \<open>Numbers\<close>

text \<open>A Python number as the script meets it: an \<^verbatim>\<open>int\<close> or a \<^verbatim>\<open>float\<close>.\<close>

datatype pynum = PInt int | PFloat pyfloat

text \<open>\<^verbatim>\<open>x * y\<close> and \<^verbatim>\<open>x + y\<close>: exact on two ints; otherwise the int operand is
  converted to a float first.\<close>

definition py_mul :: "pynum \<Rightarrow> pynum \<Rightarrow> py_error + pynum" where
  "py_mul x y =
     (case (x, y) of
        (PInt a, PInt b) \<Rightarrow> Inr (PInt (a * b))
      | (PInt a, PFloat g) \<Rightarrow> ebind (float_of_int a) (\<lambda>f. Inr (PFloat (float_mul f g)))
      | (PFloat f, PInt b) \<Rightarrow> ebind (float_of_int b) (\<lambda>g. Inr (PFloat (float_mul f g)))
      | (PFloat f, PFloat g) \<Rightarrow> Inr (PFloat (float_mul f g)))"

definition py_add :: "pynum \<Rightarrow> pynum \<Rightarrow> py_error + pynum" where
  "py_add x y =
     (case (x, y) of
        (PInt a, PInt b) \<Rightarrow> Inr (PInt (a + b))
      | (PInt a, PFloat g) \<Rightarrow> ebind (float_of_int a) (\<lambda>f. Inr (PFloat (float_add f g)))
      | (PFloat f, PInt b) \<Rightarrow> ebind (float_of_int b) (\<lambda>g. Inr (PFloat (float_add f g)))
      | (PFloat f, PFloat g) \<Rightarrow> Inr (PFloat (float_add f g)))"

text \<open>\<^verbatim>\<open>int(x)\<close> for a number: truncation towards zero; an infinity raises
  \<^verbatim>\<open>OverflowError\<close>, a NaN \<^verbatim>\<open>ValueError\<close>.\<close>

definition truncate :: "rat \<Rightarrow> int" where
  "truncate q = (if q < 0 then - \<lfloor>- q\<rfloor> else \<lfloor>q\<rfloor>)"

definition int_of_num :: "pynum \<Rightarrow> py_error + int" where
  "int_of_num x =
     (case x of
        PInt a \<Rightarrow> Inr a
      | PFloat f \<Rightarrow>
          (case rat_of_float f of
             Some q \<Rightarrow> Inr (truncate q)
           | None \<Rightarrow> if f = NaN then Inl (ValueError ''cannot convert float NaN to integer'')
                     else Inl OverflowError))"

text \<open>\<^verbatim>\<open>x == i\<close> for a number and an \<^verbatim>\<open>int\<close>: Python compares the exact values.\<close>

definition num_eq_int :: "pynum \<Rightarrow> int \<Rightarrow> bool" where
  "num_eq_int x i =
     (case x of
        PInt a \<Rightarrow> a = i
      | PFloat f \<Rightarrow> (case rat_of_float f of Some q \<Rightarrow> q = of_int i | None \<Rightarrow> False))"

text \<open>\<^verbatim>\<open>f"{x:.pf}"\<close> for a number: an \<^verbatim>\<open>int\<close> is converted to a float first.\<close>

definition format_num_f :: "nat \<Rightarrow> pynum \<Rightarrow> py_error + string" where
  "format_num_f p x =
     (case x of
        PInt a \<Rightarrow> ebind (float_of_int a) (\<lambda>f. Inr (format_f p f))
      | PFloat f \<Rightarrow> Inr (format_f p f))"

subsection \<open>JSON values and files\<close>

text \<open>
  A JSON value as \<^verbatim>\<open>json.load\<close> returns it: \<^verbatim>\<open>None\<close>, a \<^verbatim>\<open>bool\<close>, a number, a
  \<^verbatim>\<open>str\<close>, a \<^verbatim>\<open>list\<close>, or a \<^verbatim>\<open>dict\<close> with string keys, kept as the list of its
  items in insertion order (the keys of a dict are distinct).
\<close>

datatype json =
    JNull
  | JBool bool
  | JNum pynum
  | JStr string
  | JArr "json list"
  | JObj "(string \<times> json) list"

text \<open>
  The content of a file that the script reads with \<^verbatim>\<open>json.load\<close>: either text that is
  not JSON (kept as it is), or the value that \<^verbatim>\<open>json.load\<close> returns for it.
  \<^verbatim>\<open>json.dump\<close> followed by \<^verbatim>\<open>json.load\<close> gives the value back, so a file written by
  \<^verbatim>\<open>json.dump(v, f)\<close> is \<open>Parsed v\<close>.
\<close>

datatype 'a stored = Unparseable string | Parsed 'a

definition json_load :: "'a stored \<Rightarrow> py_error + 'a" where
  "json_load c = (case c of Unparseable t \<Rightarrow> Inl JSONDecodeError | Parsed v \<Rightarrow> Inr v)"

text \<open>\<^verbatim>\<open>data[key]\<close> for a string key: the value in a dict, \<^verbatim>\<open>KeyError\<close> when the dict
  has no such key, \<^verbatim>\<open>TypeError\<close> on every other JSON value.\<close>

definition getitem :: "json \<Rightarrow> string \<Rightarrow> py_error + json" where
  "getitem data key =
     (case data of
        JObj kvs \<Rightarrow> (case map_of kvs key of Some v \<Rightarrow> Inr v | None \<Rightarrow> Inl (KeyError key))
      | _ \<Rightarrow> Inl TypeError)"

text \<open>\<^verbatim>\<open>d[key] = v\<close> on the items of a dict: an existing key keeps its place, a new one goes
  last.\<close>

fun dict_set :: "(string \<times> json) list \<Rightarrow> string \<Rightarrow> json \<Rightarrow> (string \<times> json) list" where
  "dict_set [] key v = [(key, v)]"
| "dict_set ((k, x) # kvs) key v = (if k = key then (k, v) # kvs else (k, x) # dict_set kvs key v)"

definition setitem :: "json \<Rightarrow> string \<Rightarrow> json \<Rightarrow> py_error + json" where
  "setitem data key v =
     (case data of
        JObj kvs \<Rightarrow> Inr (JObj (dict_set kvs key v))
      | _ \<Rightarrow> Inl TypeError)"

text \<open>\<^verbatim>\<open>v + 1\<close> for a JSON value: numbers add, \<^verbatim>\<open>True\<close> and \<^verbatim>\<open>False\<close> count as the
  ints 1 and 0, everything else raises \<^verbatim>\<open>TypeError\<close>.\<close>

definition add_one :: "json \<Rightarrow> py_error + json" where
  "add_one v =
     (case v of
        JNum n \<Rightarrow> ebind (py_add n (PInt 1)) (\<lambda>r. Inr (JNum r))
      | JBool b \<Rightarrow> Inr (JNum (PInt ((if b then 1 else 0) + 1)))
      | _ \<Rightarrow> Inl TypeError)"

text \<open>\<^verbatim>\<open>f"{v:03d}"\<close> for a JSON value: defined on ints (a \<^verbatim>\<open>bool\<close> is formatted as its
  int); a float raises \<^verbatim>\<open>ValueError\<close>, everything else \<^verbatim>\<open>TypeError\<close>.\<close>

definition format_json_03d :: "json \<Rightarrow> py_error + string" where
  "format_json_03d v =
     (case v of
        JNum (PInt i) \<Rightarrow> Inr (format_03d i)
      | JNum (PFloat f) \<Rightarrow> Inl (ValueError ''Unknown format code d for object of type float'')
      | JBool b \<Rightarrow> Inr (format_03d (if b then 1 else 0))
      | _ \<Rightarrow> Inl TypeError)"

subsection \<open>The data of the script\<close>

text \<open>
  The invoice and its parts are Python dicts in the script. They are modelled at the shape the
  script builds and documents (\<^verbatim>\<open>create_empty_invoice\<close>): a record per dict, a field per
  key. An item's quantity is an \<^verbatim>\<open>int\<close>, its rate an \<^verbatim>\<open>int\<close> or a \<^verbatim>\<open>float\<close>; the
  date of an item may be missing (\<^verbatim>\<open>item.get("date", "")\<close>). A missing or \<^verbatim>\<open>null\<close> invoice
  number is \<open>None\<close>. JSON documents of another shape are outside the model.
\<close>

record line_item =
  service :: string
  item_date :: "string option"
  quantity :: int
  rate :: pynum

record invoice =
  invoice_number :: "string option"
  title :: string
  date :: string
  from_name :: string
  from_email :: string
  to_name :: string
  to_company :: string
  items :: "line_item list"
  payment_method :: string
  inv_notes :: string

record client =
  client_name :: string
  client_company :: string

text \<open>What the renderer hands to \<^verbatim>\<open>doc.build\<close>: the flowables, in order. Fonts, margins
  and column widths are left out.\<close>

datatype pstyle = NormalStyle | InvoiceTitle

datatype element =
    Image
  | Spacer rat
  | Paragraph string pstyle
  | Table "string list list"

text \<open>A file named by the user: a JSON file holding an invoice (or text that is not JSON), or a
  rendered document.\<close>

datatype user_file = JsonFile "invoice stored" | PdfFile "element list"

text \<open>
  The world of one run: the counter file and the client file of the \<^verbatim>\<open>data\<close> directory
  (\<open>None\<close> when the file does not exist), whether the logo exists, the files at the paths the
  user names (assumed not to be the three above), the lines still to be read from standard
  input, and today's date as \<^verbatim>\<open>strftime("%B %d, %Y")\<close> prints it. The \<^verbatim>\<open>data\<close> directory
  itself is not modelled: \<^verbatim>\<open>ensure_data_dir\<close> has no effect that the script observes.
\<close>

record world =
  counter_file :: "json stored option"
  clients_file :: "(string \<times> client) list stored option"
  logo_file :: bool
  files :: "string \<Rightarrow> user_file option"
  stdin :: "string list"
  today :: string

subsection \<open>Defaults\<close>

text \<open>The dict \<^verbatim>\<open>DEFAULTS\<close>. The payment text of the source has three characters above
  code point 255 between \<^verbatim>\<open>PayPal\<close> and the address; a hyphen stands for them here.\<close>

definition default_from_name :: string where
  "default_from_name = ''Adam Luck''"

definition default_from_email :: string where
  "default_from_email = ''adamluckydo@gmail.com''"

definition default_payment_method :: string where
  "default_payment_method = ''PayPal - adamluckydo@gmail.com''"

definition invoice_prefix :: string where
  "invoice_prefix = ''INV''"

subsection \<open>Data persistence: the invoice counter\<close>

text \<open>
  \<^verbatim>\<open>get_next_invoice_number\<close>: load the counter (or start from
  \<^verbatim>\<open>{"last_number": 0}\<close> when the file does not exist), add one, write the whole dict back,
  return the formatted number. Everything before the write leaves the world as it was; the
  formatting comes after the write.
\<close>

definition get_next_invoice_number :: "world \<Rightarrow> (py_error + string) \<times> world" where
  "get_next_invoice_number w =
     (case (case counter_file w of
              Some c \<Rightarrow> json_load c
            | None \<Rightarrow> Inr (JObj [(''last_number'', JNum (PInt 0))])) of
        Inl e \<Rightarrow> (Inl e, w)
      | Inr data \<Rightarrow>
          (case ebind (getitem data ''last_number'')
                  (\<lambda>v. ebind (add_one v) (\<lambda>v'. setitem data ''last_number'' v')) of
             Inl e \<Rightarrow> (Inl e, w)
           | Inr data' \<Rightarrow>
               (ebind (getitem data' ''last_number'')
                  (\<lambda>v. ebind (format_json_03d v) (\<lambda>s. Inr (invoice_prefix @ ''-'' @ s))),
                w\<lparr>counter_file := Some (Parsed data')\<rparr>)))"

text \<open>\<^verbatim>\<open>peek_next_invoice_number\<close>: the number the next call of
  \<^verbatim>\<open>get_next_invoice_number\<close> would return; it only reads.\<close>

definition peek_next_invoice_number :: "world \<Rightarrow> (py_error + string) \<times> world" where
  "peek_next_invoice_number w =
     (case counter_file w of
        Some c \<Rightarrow>
          (ebind (json_load c)
             (\<lambda>data. ebind (getitem data ''last_number'')
                (\<lambda>v. ebind (add_one v)
                   (\<lambda>v'. ebind (format_json_03d v') (\<lambda>s. Inr (invoice_prefix @ ''-'' @ s))))),
           w)
      | None \<Rightarrow> (Inr (invoice_prefix @ ''-001''), w))"

subsection \<open>Effects\<close>

text \<open>A computation with effects takes the world and returns its result, or the exception
  it raised, with the world as it is then. \<open>io_bind\<close> runs one computation after another
  and stops at the first exception.\<close>

type_synonym 'a io = "world \<Rightarrow> (py_error + 'a) \<times> world"

definition io_return :: "'a \<Rightarrow> 'a io" where
  "io_return x w = (Inr x, w)"

definition io_lift :: "py_error + 'a \<Rightarrow> 'a io" where
  "io_lift r w = (r, w)"

definition io_bind :: "'a io \<Rightarrow> ('a \<Rightarrow> 'b io) \<Rightarrow> 'b io" where
  "io_bind m f w = (case m w of (Inl e, w') \<Rightarrow> (Inl e, w') | (Inr x, w') \<Rightarrow> f x w')"

text \<open>The truth value of an optional string (\<^verbatim>\<open>if args.title:\<close>): given and not empty.\<close>

definition truthy :: "string option \<Rightarrow> bool" where
  "truthy x = (case x of None \<Rightarrow> False | Some s \<Rightarrow> s \<noteq> [])"

subsection \<open>Data persistence: client profiles\<close>

type_synonym clients = "(string \<times> client) list"

definition load_clients :: "clients io" where
  "load_clients w =
     (case clients_file w of
        Some c \<Rightarrow> (json_load c, w)
      | None \<Rightarrow> (Inr [], w))"

definition save_clients :: "clients \<Rightarrow> unit io" where
  "save_clients cs w = (Inr (), w\<lparr>clients_file := Some (Parsed cs)\<rparr>)"

text \<open>\<^verbatim>\<open>clients[key] = profile\<close> and \<^verbatim>\<open>del clients[key]\<close> on the items of the dict.\<close>

fun clients_set :: "clients \<Rightarrow> string \<Rightarrow> client \<Rightarrow> clients" where
  "clients_set [] key v = [(key, v)]"
| "clients_set ((k, x) # kvs) key v =
     (if k = key then (k, v) # kvs else (k, x) # clients_set kvs key v)"

definition clients_del :: "clients \<Rightarrow> string \<Rightarrow> clients" where
  "clients_del cs key = filter (\<lambda>kv. fst kv \<noteq> key) cs"

subsection \<open>Invoice data structure\<close>

definition create_empty_invoice :: "world \<Rightarrow> invoice" where
  "create_empty_invoice w =
     \<lparr>invoice_number = None,
      title = [],
      date = today w,
      from_name = default_from_name,
      from_email = default_from_email,
      to_name = [],
      to_company = [],
      items = [],
      payment_method = default_payment_method,
      inv_notes = []\<rparr>"

subsection \<open>Interactive input\<close>

text \<open>\<^verbatim>\<open>input()\<close>: the next line of standard input, or \<^verbatim>\<open>EOFError\<close>.\<close>

definition py_input :: "string io" where
  "py_input w =
     (case stdin w of
        [] \<Rightarrow> (Inl EOFError, w)
      | l # ls \<Rightarrow> (Inr l, w\<lparr>stdin := ls\<rparr>))"

text \<open>\<^verbatim>\<open>prompt(msg, default)\<close>; a missing default is the empty string.\<close>

definition prompt :: "string \<Rightarrow> string io" where
  "prompt dflt =
     (if dflt \<noteq> [] then
        io_bind py_input (\<lambda>l. io_return (if strip l \<noteq> [] then strip l else dflt))
      else io_bind py_input (\<lambda>l. io_return (strip l)))"

text \<open>\<^verbatim>\<open>prompt_client_selection\<close>: a number picks a saved client by position; text that is
  not a number picks it by key.\<close>

definition prompt_client_selection :: "clients \<Rightarrow> client option io" where
  "prompt_client_selection cs =
     (if cs = [] then io_return None
      else
        io_bind (prompt [])
          (\<lambda>choice.
             io_return
               (case py_int choice of
                  Inr i \<Rightarrow>
                    (let idx = i - 1 in
                     if 0 \<le> idx \<and> idx < int (length cs) then Some (snd (cs ! nat idx)) else None)
                | Inl e \<Rightarrow> map_of cs choice)))"

text \<open>The numbers of one prompted item: when either text is not a number, both fall back to
  the defaults.\<close>

definition prompted_numbers :: "string \<Rightarrow> string \<Rightarrow> int \<times> pynum" where
  "prompted_numbers q r =
     (case py_int q of
        Inl e \<Rightarrow> (1, PInt 0)
      | Inr qi \<Rightarrow>
          (case py_float (remove_char CHR '','' (remove_char CHR ''$'' r)) of
             Inl e \<Rightarrow> (1, PInt 0)
           | Inr f \<Rightarrow> (qi, PFloat f)))"

text \<open>
  \<^verbatim>\<open>prompt_items\<close>: the loop reads items until an empty service line, which ends it only
  when at least one item has been read. Every round reads a line, so the loop ends with the
  input at the latest, with \<^verbatim>\<open>EOFError\<close>.
\<close>

function prompt_items_loop :: "line_item list \<Rightarrow> line_item list io" where
  "prompt_items_loop acc w =
     (case py_input w of
        (Inl e, w1) \<Rightarrow> (Inl e, w1)
      | (Inr l, w1) \<Rightarrow>
          if strip l = [] then
            (if acc = [] then prompt_items_loop acc w1 else (Inr acc, w1))
          else
            (case prompt [] w1 of
               (Inl e, w2) \<Rightarrow> (Inl e, w2)
             | (Inr d, w2) \<Rightarrow>
                 (case prompt ''1'' w2 of
                    (Inl e, w3) \<Rightarrow> (Inl e, w3)
                  | (Inr q, w3) \<Rightarrow>
                      (case prompt ''0'' w3 of
                         (Inl e, w4) \<Rightarrow> (Inl e, w4)
                       | (Inr r, w4) \<Rightarrow>
                           prompt_items_loop
                             (acc @ [\<lparr>service = strip l, item_date = Some d,
                                      quantity = fst (prompted_numbers q r),
                                      rate = snd (prompted_numbers q r)\<rparr>])
                             w4))))"
  by pat_completeness auto

termination prompt_items_loop
proof (relation "measure (\<lambda>(acc, w). length (stdin w))")
  show "wf (measure (\<lambda>(acc, w). length (stdin w)))" by simp
next
  fix acc :: "line_item list" and w x1 w1 l
  assume "(x1, w1) = py_input w" "x1 = Inr l"
  then show "((acc, w1), acc, w) \<in> measure (\<lambda>(acc, w). length (stdin w))"
    by (auto simp add: py_input_def split: list.splits)
next
  fix acc :: "line_item list" and w x1 w1 l x2 w2 d x3 w3 q x4 w4 r
  assume a: "(x1, w1) = py_input w" "x1 = Inr l" "(x2, w2) = prompt [] w1" "x2 = Inr d"
    "(x3, w3) = prompt ''1'' w2" "x3 = Inr q" "(x4, w4) = prompt ''0'' w3" "x4 = Inr r"
  have p: "length (stdin b) \<le> length (stdin a)" if "(Inr y, b) = prompt dflt a" for a b y dflt
    using that
    by (auto simp add: prompt_def io_bind_def io_return_def py_input_def
        split: list.splits if_splits)
  have "length (stdin w1) < length (stdin w)"
    using a(1,2) by (auto simp add: py_input_def split: list.splits)
  moreover have "length (stdin w4) \<le> length (stdin w1)"
    using p [of r w4 "''0''" w3] p [of q w3 "''1''" w2] p [of d w2 "[]" w1] a by simp
  ultimately show "((acc @ [\<lparr>service = strip l, item_date = Some d,
      quantity = fst (prompted_numbers q r), rate = snd (prompted_numbers q r)\<rparr>], w4), acc, w)
    \<in> measure (\<lambda>(acc, w). length (stdin w))"
    by simp
qed

definition prompt_items :: "line_item list io" where
  "prompt_items = prompt_items_loop []"

text \<open>\<^verbatim>\<open>interactive_input\<close>: the client file is loaded and the next invoice number is
  peeked at (to print it) before the first prompt.\<close>

definition interactive_input :: "invoice io" where
  "interactive_input =
     (\<lambda>w0.
        (let invoice = create_empty_invoice w0 in
         io_bind load_clients (\<lambda>cs.
         io_bind peek_next_invoice_number (\<lambda>shown.
         io_bind (prompt []) (\<lambda>t.
         io_bind (prompt (date invoice)) (\<lambda>d.
         io_bind (prompt default_from_name) (\<lambda>fname.
         io_bind (prompt default_from_email) (\<lambda>femail.
         io_bind (prompt_client_selection cs) (\<lambda>selected.
         io_bind
           (case selected of
              Some c \<Rightarrow> io_return (client_name c, client_company c)
            | None \<Rightarrow> io_bind (prompt []) (\<lambda>n. io_bind (prompt []) (\<lambda>c. io_return (n, c))))
           (\<lambda>recipient.
         io_bind prompt_items (\<lambda>its.
         io_bind (prompt default_payment_method) (\<lambda>pay.
         io_bind (prompt []) (\<lambda>nts.
         io_return
           (invoice\<lparr>title := t, date := d, from_name := fname, from_email := femail,
                to_name := fst recipient, to_company := snd recipient, items := its,
                payment_method := pay, inv_notes := nts\<rparr>)))))))))))))
        w0)"

subsection \<open>PDF generation\<close>

text \<open>
  The amount text that \<^verbatim>\<open>generate_pdf\<close> builds for a rate, a line total and the grand
  total, each time with the same conditional expression:
  \<^verbatim>\<open>f"${x:.0f}" if x == int(x) else f"${x:.2f}"\<close>.
\<close>

definition format_money :: "pynum \<Rightarrow> py_error + string" where
  "format_money x =
     ebind (int_of_num x)
       (\<lambda>i. ebind (format_num_f (if num_eq_int x i then 0 else 2) x)
          (\<lambda>s. Inr (CHR ''$'' # s)))"

text \<open>One round of the loop over the items: the line total, the new grand total, and the row
  appended to the table.\<close>

definition table_step :: "line_item \<Rightarrow> pynum \<Rightarrow> py_error + (pynum \<times> string list)" where
  "table_step it grand_total =
     ebind (py_mul (PInt (quantity it)) (rate it)) (\<lambda>total.
     ebind (py_add grand_total total) (\<lambda>grand_total'.
     ebind (format_money (rate it)) (\<lambda>rate_text.
     ebind (format_money total) (\<lambda>total_text.
       Inr (grand_total',
            [service it,
             (case item_date it of Some d \<Rightarrow> d | None \<Rightarrow> []),
             str_int (quantity it),
             rate_text,
             total_text])))))"

fun table_loop :: "line_item list \<Rightarrow> pynum \<Rightarrow> string list list \<Rightarrow> py_error + (pynum \<times> string list list)" where
  "table_loop [] grand_total table_data = Inr (grand_total, table_data)"
| "table_loop (it # its) grand_total table_data =
     (case table_step it grand_total of
        Inl e \<Rightarrow> Inl e
      | Inr (grand_total', row) \<Rightarrow> table_loop its grand_total' (table_data @ [row]))"

text \<open>The rows handed to \<^verbatim>\<open>Table\<close>: the header, a row per item, the total row.\<close>

definition items_table :: "line_item list \<Rightarrow> py_error + string list list" where
  "items_table its =
     (case table_loop its (PInt 0) [[''Services'', ''Date'', ''Quantity'', ''Rate'', ''Total'']] of
        Inl e \<Rightarrow> Inl e
      | Inr (grand_total, table_data) \<Rightarrow>
          ebind (format_money grand_total)
            (\<lambda>total_text. Inr (table_data @ [[''Total'', [], [], [], total_text]])))"

text \<open>The flowables of the document, top to bottom.\<close>

definition invoice_elements :: "bool \<Rightarrow> invoice \<Rightarrow> py_error + element list" where
  "invoice_elements logo invoice =
     ebind (items_table (items invoice))
       (\<lambda>table_data.
          Inr ((if logo then [Image, Spacer (1 / 4)] else [])
               @ (if truthy (invoice_number invoice)
                  then [Paragraph (''<b>Invoice #:</b> '' @ the (invoice_number invoice)) NormalStyle]
                  else [])
               @ [Paragraph (title invoice) InvoiceTitle,
                  Paragraph (''<b>Date:</b> '' @ date invoice) NormalStyle,
                  Spacer (1 / 4),
                  Paragraph ''<b>From:</b>'' NormalStyle,
                  Paragraph (from_name invoice) NormalStyle,
                  Paragraph (from_email invoice) NormalStyle,
                  Spacer (3 / 20),
                  Paragraph ''<b>To:</b>'' NormalStyle,
                  Paragraph (to_name invoice) NormalStyle]
               @ (if to_company invoice \<noteq> [] then [Paragraph (to_company invoice) NormalStyle] else [])
               @ [Spacer (1 / 4),
                  Table table_data,
                  Spacer (1 / 4),
                  Paragraph (''<b>Payment Method:</b> '' @ payment_method invoice) NormalStyle]
               @ (if inv_notes invoice \<noteq> []
                  then [Spacer (1 / 4), Paragraph (''<b>Notes:</b> '' @ inv_notes invoice) NormalStyle]
                  else [])))"

text \<open>
  \<^verbatim>\<open>generate_pdf\<close>: the file is written by \<^verbatim>\<open>doc.build\<close>, the last statement, so an
  exception while the table is built leaves no file. What \<^verbatim>\<open>reportlab\<close> does with the
  flowables (layout, mark-up in paragraph text) is not modelled.
\<close>

definition generate_pdf :: "invoice \<Rightarrow> string \<Rightarrow> string io" where
  "generate_pdf invoice output_path w =
     (case invoice_elements (logo_file w) invoice of
        Inl e \<Rightarrow> (Inl e, w)
      | Inr elements \<Rightarrow>
          (Inr output_path, w\<lparr>files := (files w)(output_path \<mapsto> PdfFile elements)\<rparr>))"

subsection \<open>Command line\<close>

text \<open>\<^verbatim>\<open>parse_item_string\<close>. The entries of the dict are evaluated in order, so a bad
  quantity is reported before a bad rate.\<close>

definition parse_item_string :: "string \<Rightarrow> py_error + line_item" where
  "parse_item_string item_str =
     (let parts0 = map strip (split CHR '','' item_str);
          parts = (if length parts0 < 4 then parts0 @ replicate (4 - length parts0) [] else parts0)
      in ebind (if parts ! 2 \<noteq> [] then py_int (parts ! 2) else Inr 1) (\<lambda>q.
         ebind (if parts ! 3 \<noteq> []
                then ebind (py_float (remove_char CHR ''$'' (parts ! 3))) (\<lambda>f. Inr (PFloat f))
                else Inr (PInt 0)) (\<lambda>r.
           Inr \<lparr>service = parts ! 0, item_date = Some (parts ! 1), quantity = q, rate = r\<rparr>)))"

text \<open>The items of \<^verbatim>\<open>[parse_item_string(i) for i in args.item]\<close>: the first exception ends
  the comprehension.\<close>

fun parse_items :: "string list \<Rightarrow> py_error + line_item list" where
  "parse_items [] = Inr []"
| "parse_items (s # ss) =
     (case parse_item_string s of
        Inl e \<Rightarrow> Inl e
      | Inr it \<Rightarrow> (case parse_items ss of Inl e \<Rightarrow> Inl e | Inr its \<Rightarrow> Inr (it # its)))"

text \<open>The parsed command line (\<^verbatim>\<open>args\<close>): \<open>None\<close> for an option that was not given.
  \<^verbatim>\<open>--item\<close> may be repeated; when given, its list is not empty.\<close>

record args =
  arg_from_json :: "string option"
  arg_title :: "string option"
  arg_date :: "string option"
  arg_to :: "string option"
  arg_to_company :: "string option"
  arg_from_name :: "string option"
  arg_from_email :: "string option"
  arg_item :: "string list option"
  arg_payment :: "string option"
  arg_notes :: "string option"
  arg_output :: "string option"
  arg_save_json :: "string option"
  arg_invoice_number :: "string option"
  arg_no_number :: bool
  arg_client :: "string option"
  arg_list_clients :: bool
  arg_save_client :: "string option"
  arg_delete_client :: "string option"

definition given_items :: "args \<Rightarrow> bool" where
  "given_items a = (case arg_item a of None \<Rightarrow> False | Some ss \<Rightarrow> ss \<noteq> [])"

text \<open>\<^verbatim>\<open>x = v\<close> under \<^verbatim>\<open>if v:\<close>: the given value, or else the old one.\<close>

definition override :: "string option \<Rightarrow> string \<Rightarrow> string" where
  "override v old = (if truthy v then the v else old)"

text \<open>\<^verbatim>\<open>open(path)\<close> and \<^verbatim>\<open>json.load\<close> on a file named by the user. A rendered document
  is not text (\<^verbatim>\<open>UnicodeDecodeError\<close> is a \<^verbatim>\<open>ValueError\<close>).\<close>

definition load_json_file :: "string \<Rightarrow> invoice io" where
  "load_json_file path w =
     (case files w path of
        None \<Rightarrow> (Inl (FileNotFoundError path), w)
      | Some (JsonFile c) \<Rightarrow> (json_load c, w)
      | Some (PdfFile d) \<Rightarrow> (Inl (ValueError ''UnicodeDecodeError''), w))"

text \<open>
  The part of \<^verbatim>\<open>main\<close> under \<^verbatim>\<open># Load from JSON or start fresh\<close>. The result is
  \<open>None\<close> when \<^verbatim>\<open>main\<close> returns there (an unknown client key).
\<close>

definition load_or_start_fresh :: "args \<Rightarrow> invoice option io" where
  "load_or_start_fresh a =
     (if truthy (arg_from_json a) then
        io_bind (load_json_file (the (arg_from_json a))) (\<lambda>invoice. io_return (Some invoice))
      else if truthy (arg_title a) \<or> given_items a \<or> truthy (arg_client a) then
        (\<lambda>w0.
           (let invoice = create_empty_invoice w0 in
            io_bind
              (if truthy (arg_client a) then
                 io_bind load_clients (\<lambda>cs.
                   case map_of cs (the (arg_client a)) of
                     None \<Rightarrow> io_return None
                   | Some c \<Rightarrow>
                       io_return (Some (invoice\<lparr>to_name := client_name c, to_company := client_company c\<rparr>)))
               else io_return (Some invoice))
              (\<lambda>r. case r of
                 None \<Rightarrow> io_return None
               | Some inv1 \<Rightarrow>
                   (let inv2 = inv1\<lparr>title := override (arg_title a) (title inv1),
                                    date := override (arg_date a) (date inv1),
                                    to_name := override (arg_to a) (to_name inv1),
                                    to_company := override (arg_to_company a) (to_company inv1),
                                    from_name := override (arg_from_name a) (from_name inv1),
                                    from_email := override (arg_from_email a) (from_email inv1)\<rparr>
                    in io_bind
                         (if given_items a
                          then io_bind (io_lift (parse_items (the (arg_item a))))
                                 (\<lambda>its. io_return (inv2\<lparr>items := its\<rparr>))
                          else io_return inv2)
                         (\<lambda>inv3.
                            io_return
                              (Some (inv3\<lparr>payment_method := override (arg_payment a) (payment_method inv3),
                                          inv_notes := override (arg_notes a) (inv_notes inv3)\<rparr>)))))
              w0))
      else io_bind interactive_input (\<lambda>invoice. io_return (Some invoice)))"

text \<open>The part of \<^verbatim>\<open>main\<close> under \<^verbatim>\<open># Handle invoice numbering\<close>.\<close>

definition handle_invoice_numbering :: "args \<Rightarrow> invoice \<Rightarrow> invoice io" where
  "handle_invoice_numbering a invoice =
     (if arg_no_number a then io_return (invoice\<lparr>invoice_number := None\<rparr>)
      else if truthy (arg_invoice_number a)
      then io_return (invoice\<lparr>invoice_number := arg_invoice_number a\<rparr>)
      else if \<not> truthy (invoice_number invoice)
      then io_bind get_next_invoice_number (\<lambda>n. io_return (invoice\<lparr>invoice_number := Some n\<rparr>))
      else io_return invoice)"

text \<open>The part of \<^verbatim>\<open>main\<close> under \<^verbatim>\<open># Generate output filename\<close>.\<close>

definition safe_title :: "string \<Rightarrow> string" where
  "safe_title t =
     replace_char CHR '' '' CHR ''-''
       (filter (\<lambda>c. isalnum c \<or> c = CHR '' '' \<or> c = CHR ''-'' \<or> c = CHR ''_'') t)"

definition generate_output_filename :: "args \<Rightarrow> invoice \<Rightarrow> string" where
  "generate_output_filename a invoice =
     (if truthy (arg_output a) then the (arg_output a)
      else if truthy (invoice_number invoice)
      then the (invoice_number invoice) @ ''-'' @ safe_title (title invoice) @ ''.pdf''
      else safe_title (title invoice) @ ''.pdf'')"

text \<open>The part of \<^verbatim>\<open>main\<close> under \<^verbatim>\<open># Optionally save JSON\<close>.\<close>

definition save_json :: "args \<Rightarrow> invoice \<Rightarrow> unit io" where
  "save_json a invoice w =
     (if truthy (arg_save_json a)
      then (Inr (), w\<lparr>files := (files w)(the (arg_save_json a) \<mapsto> JsonFile (Parsed invoice))\<rparr>)
      else (Inr (), w))"

text \<open>
  How a run of \<^verbatim>\<open>main\<close> ends when no exception escapes: it returned before rendering (a
  client command, or an error it printed), or it rendered the invoice to the path.
\<close>

datatype outcome = Returned | Generated string invoice

text \<open>The invoice part of \<^verbatim>\<open>main\<close>, from \<^verbatim>\<open># Load from JSON or start fresh\<close> on.\<close>

definition make_invoice :: "args \<Rightarrow> outcome io" where
  "make_invoice a =
     io_bind (load_or_start_fresh a) (\<lambda>r.
       case r of
         None \<Rightarrow> io_return Returned
       | Some inv0 \<Rightarrow>
           io_bind (handle_invoice_numbering a inv0) (\<lambda>invoice.
           io_bind (generate_pdf invoice (generate_output_filename a invoice)) (\<lambda>output_path.
           io_bind (save_json a invoice) (\<lambda>u.
           io_return (Generated output_path invoice)))))"

definition main :: "args \<Rightarrow> outcome io" where
  "main a =
     (if arg_list_clients a then
        io_bind load_clients (\<lambda>cs. io_return Returned)
      else if truthy (arg_delete_client a) then
        io_bind load_clients (\<lambda>cs.
          if map_of cs (the (arg_delete_client a)) \<noteq> None
          then io_bind (save_clients (clients_del cs (the (arg_delete_client a))))
                 (\<lambda>u. io_return Returned)
          else io_return Returned)
      else if truthy (arg_save_client a) then
        (if \<not> truthy (arg_to a) then io_return Returned
         else
           io_bind load_clients (\<lambda>cs.
           io_bind
             (save_clients
                (clients_set cs (the (arg_save_client a))
                   \<lparr>client_name = the (arg_to a),
                    client_company = (if truthy (arg_to_company a) then the (arg_to_company a) else [])\<rparr>))
             (\<lambda>u. if \<not> given_items a then io_return Returned else make_invoice a)))
      else make_invoice a)"

subsection \<open>Running the counter several times\<close>

text \<open>\<open>k\<close> calls of \<^verbatim>\<open>get_next_invoice_number\<close> in a row, with the numbers they return;
  the first exception ends the run.\<close>

fun allocate_n :: "nat \<Rightarrow> string list io" where
  "allocate_n 0 w = (Inr [], w)"
| "allocate_n (Suc k) w =
     (case get_next_invoice_number w of
        (Inl e, w') \<Rightarrow> (Inl e, w')
      | (Inr s, w') \<Rightarrow>
          (case allocate_n k w' of
             (Inl e, w'') \<Rightarrow> (Inl e, w'')
           | (Inr ss, w'') \<Rightarrow> (Inr (s # ss), w'')))"

text \<open>\<open>k\<close> calls of \<^verbatim>\<open>peek_next_invoice_number\<close> in a row, each one's result (a number or
  an exception) kept.\<close>

fun peek_n :: "nat \<Rightarrow> world \<Rightarrow> (py_error + string) list \<times> world" where
  "peek_n 0 w = ([], w)"
| "peek_n (Suc k) w =
     (case peek_next_invoice_number w of
        (r, w') \<Rightarrow> (case peek_n k w' of (rs, w'') \<Rightarrow> (r # rs, w'')))"

text \<open>The counter file as \<^verbatim>\<open>get_next_invoice_number\<close> writes it from a fresh start.\<close>

definition counter_at :: "int \<Rightarrow> json stored option" where
  "counter_at n = Some (Parsed (JObj [(''last_number'', JNum (PInt n))]))"

text \<open>A world with no files, no input and a fixed date, for the examples.\<close>

definition empty_world :: world where
  "empty_world =
     \<lparr>counter_file = None, clients_file = None, logo_file = False, files = (\<lambda>p. None),
      stdin = [], today = ''January 01, 2025''\<rparr>"

text \<open>A command line with no option given.\<close>

definition no_args :: args where
  "no_args =
     \<lparr>arg_from_json = None, arg_title = None, arg_date = None, arg_to = None,
      arg_to_company = None, arg_from_name = None, arg_from_email = None, arg_item = None,
      arg_payment = None, arg_notes = None, arg_output = None, arg_save_json = None,
      arg_invoice_number = None, arg_no_number = False, arg_client = None,
      arg_list_clients = False, arg_save_client = None, arg_delete_client = None\<rparr>"

section \<open>Properties\<close>

subsection \<open>Decimal digits\<close>
lemma digit_val_digit_char: "d < 10 \<Longrightarrow> digit_val (digit_char d) = d"
  by (simp add: digit_val_def digit_char_def ord_def)

lemma isdigit_digit_char: "d < 10 \<Longrightarrow> isdigit (digit_char d)"
  by (simp add: isdigit_def digit_char_def ord_def)

lemma nat_of_digits_snoc: "nat_of_digits (ds @ [c]) = 10 * nat_of_digits ds + digit_val c"
  by (simp add: nat_of_digits_def)

lemma nat_of_digits_of_nat: "nat_of_digits (digits_of_nat n) = n"
proof (induction n rule: digits_of_nat.induct)
  case (1 n)
  show ?case
  proof (cases "n < 10")
    case True
    then show ?thesis
      by (subst digits_of_nat.simps) (simp add: nat_of_digits_def digit_val_digit_char)
  next
    case False
    with 1 have "nat_of_digits (digits_of_nat (n div 10)) = n div 10" by simp
    with False show ?thesis
      by (subst digits_of_nat.simps) (simp add: nat_of_digits_snoc digit_val_digit_char)
  qed
qed

lemma digits_of_nat_all_digits: "list_all isdigit (digits_of_nat n)"
proof (induction n rule: digits_of_nat.induct)
  case (1 n)
  show ?case
  proof (cases "n < 10")
    case True
    then show ?thesis by (subst digits_of_nat.simps) (simp add: isdigit_digit_char)
  next
    case False
    with 1 show ?thesis by (subst digits_of_nat.simps) (simp add: isdigit_digit_char)
  qed
qed

lemma digits_of_nat_nonempty: "digits_of_nat n \<noteq> []"
  by (subst digits_of_nat.simps) simp

lemma length_digits_of_nat_ge3: "100 \<le> n \<Longrightarrow> 3 \<le> length (digits_of_nat n)"
proof -
  assume h: "100 \<le> n"
  have a: "digits_of_nat n = digits_of_nat (n div 10) @ [digit_char (n mod 10)]"
    using h by (subst digits_of_nat.simps) simp
  have "\<not> n div 10 < 10" using h by simp
  then have b: "digits_of_nat (n div 10) = digits_of_nat (n div 10 div 10) @ [digit_char (n div 10 mod 10)]"
    using digits_of_nat.simps [of "n div 10"] by simp
  have "1 \<le> length (digits_of_nat (n div 10 div 10))"
    using digits_of_nat_nonempty [of "n div 10 div 10"] by (cases "digits_of_nat (n div 10 div 10)") simp_all
  with a b show ?thesis by simp
qed

lemma nat_of_digits_zero_pad: "nat_of_digits (zero_pad w ds) = nat_of_digits ds"
proof -
  have "foldl (\<lambda>a c. 10 * a + digit_val c) 0 (replicate k CHR ''0'') = 0" for k
    by (induction k) (simp_all add: digit_val_def ord_def)
  then show ?thesis by (simp add: zero_pad_def nat_of_digits_def)
qed

lemma nat_of_format_03d: "nat_of_digits (format_03d (int n)) = n"
  by (simp add: format_03d_def nat_of_digits_zero_pad nat_of_digits_of_nat)

lemma format_03d_large: "100 \<le> n \<Longrightarrow> format_03d (int n) = digits_of_nat n"
  using length_digits_of_nat_ge3 [of n] by (simp add: format_03d_def zero_pad_def)

lemma length_format_03d: "3 \<le> length (format_03d (int n))"
  by (simp add: format_03d_def zero_pad_def)

lemma format_03d_all_digits: "list_all isdigit (format_03d (int n))"
proof -
  have "isdigit CHR ''0''" by (simp add: isdigit_def ord_def)
  then have "list_all isdigit (replicate k CHR ''0'')" for k by (simp add: list_all_iff)
  then show ?thesis by (simp add: format_03d_def zero_pad_def digits_of_nat_all_digits)
qed

subsection \<open>The counter\<close>

lemma map_of_dict_set: "map_of (dict_set kvs k v) k = Some v"
  by (induction kvs k v rule: dict_set.induct) auto

lemma py_add_int_one: "py_add (PInt n) (PInt 1) = Inr (PInt (n + 1))"
  by (simp add: py_add_def)

lemma get_next_int:
  assumes "counter_file w = Some (Parsed (JObj kvs))"
    and "map_of kvs ''last_number'' = Some (JNum (PInt n))"
  shows "get_next_invoice_number w =
    (Inr (''INV-'' @ format_03d (n + 1)),
     w\<lparr>counter_file := Some (Parsed (JObj (dict_set kvs ''last_number'' (JNum (PInt (n + 1))))))\<rparr>)"
  using assms
  by (simp add: get_next_invoice_number_def json_load_def getitem_def add_one_def setitem_def
      ebind_def py_add_int_one map_of_dict_set format_json_03d_def invoice_prefix_def)

lemma get_next_absent:
  assumes "counter_file w = None"
  shows "get_next_invoice_number w = (Inr (''INV-'' @ format_03d 1), w\<lparr>counter_file := counter_at 1\<rparr>)"
  using assms
  by (simp add: get_next_invoice_number_def json_load_def getitem_def add_one_def setitem_def
      ebind_def py_add_int_one format_json_03d_def invoice_prefix_def counter_at_def)

lemma get_next_counter_at:
  assumes "counter_file w = counter_at n"
  shows "get_next_invoice_number w = (Inr (''INV-'' @ format_03d (n + 1)), w\<lparr>counter_file := counter_at (n + 1)\<rparr>)"
  using get_next_int [of w "[(''last_number'', JNum (PInt n))]" n] assms
  by (simp add: counter_at_def)

lemma allocate_n_counter_at:
  "counter_file w = counter_at (int n) \<Longrightarrow>
   allocate_n k w =
     (Inr (map (\<lambda>i. ''INV-'' @ format_03d (int i)) [Suc n ..< Suc (n + k)]),
      w\<lparr>counter_file := counter_at (int (n + k))\<rparr>)"
proof (induction k arbitrary: w n)
  case 0
  then show ?case by simp
next
  case (Suc k)
  let ?w' = "w\<lparr>counter_file := counter_at (int (Suc n))\<rparr>"
  have g: "get_next_invoice_number w = (Inr (''INV-'' @ format_03d (int (Suc n))), ?w')"
    using get_next_counter_at [OF Suc.prems] by (simp add: add.commute)
  have "counter_file ?w' = counter_at (int (Suc n))" by simp
  from Suc.IH [OF this]
  have a: "allocate_n k ?w' =
     (Inr (map (\<lambda>i. ''INV-'' @ format_03d (int i)) [Suc (Suc n) ..< Suc (Suc n + k)]),
      w\<lparr>counter_file := counter_at (int (Suc n + k))\<rparr>)" by simp
  have l: "[Suc n ..< Suc (n + Suc k)] = Suc n # [Suc (Suc n) ..< Suc (Suc n + k)]"
    by (simp add: upt_conv_Cons)
  show ?case
    unfolding allocate_n.simps g prod.case sum.case a l
    by (simp del: upt_Suc)
qed

lemma peek_world: "snd (peek_next_invoice_number w) = w"
  by (simp add: peek_next_invoice_number_def split: option.splits)

lemma peek_n_eq: "peek_n k w = (replicate k (fst (peek_next_invoice_number w)), w)"
proof (induction k)
  case 0 show ?case by simp
next
  case (Suc k)
  obtain r w' where p: "peek_next_invoice_number w = (r, w')" by (cases "peek_next_invoice_number w")
  with peek_world [of w] have "w' = w" by simp
  with p Suc show ?case by simp
qed

lemma peek_value_is_next:
  assumes "fst (peek_next_invoice_number w) = Inr s"
  shows "fst (get_next_invoice_number w) = Inr s"
proof (cases "counter_file w")
  case None
  have "format_03d 1 = ''001''" by code_simp
  with None assms show ?thesis
    using get_next_absent [OF None] by (simp add: peek_next_invoice_number_def invoice_prefix_def)
next
  case (Some c)
  with assms obtain data v v' t where
    d: "json_load c = Inr data" and v: "getitem data ''last_number'' = Inr v"
    and v': "add_one v = Inr v'" and t: "format_json_03d v' = Inr t" and s: "s = invoice_prefix @ ''-'' @ t"
    by (auto simp add: peek_next_invoice_number_def ebind_def split: sum.splits)
  from v obtain kvs where kvs: "data = JObj kvs"
    by (cases data) (simp_all add: getitem_def)
  show ?thesis using Some d v v' t s kvs
    by (simp add: get_next_invoice_number_def ebind_def setitem_def getitem_def map_of_dict_set)
qed

lemma get_next_unparseable:
  "counter_file w = Some (Unparseable t) \<Longrightarrow> get_next_invoice_number w = (Inl JSONDecodeError, w)"
  by (simp add: get_next_invoice_number_def json_load_def)

lemma peek_unparseable:
  "counter_file w = Some (Unparseable t) \<Longrightarrow> peek_next_invoice_number w = (Inl JSONDecodeError, w)"
  by (simp add: peek_next_invoice_number_def json_load_def ebind_def)

subsection \<open>Claims about the counter\<close>

text \<open>
  Claim C1. Starting with no counter file, \<open>N \<ge> 1\<close> calls of
  \<^verbatim>\<open>get_next_invoice_number\<close> in a row all succeed and return, in this order, the prefix,
  a hyphen and the numbers 1 to \<open>N\<close> formatted with \<^verbatim>\<open>03d\<close>. The identifiers are
  pairwise different, and the number read back from the digits of the \<open>i\<close>-th one is \<open>i\<close>,
  so they increase strictly and no digit is cut off. Every formatted number has at least three
  characters, all of them digits, and from 100 on it is the plain decimal text of the number,
  whose width grows with it. After the calls the counter file holds
  \<^verbatim>\<open>{"last_number": N}\<close>, and nothing else in the world has changed.
\<close>

theorem allocate_sequence:
  assumes "counter_file w = None" and "1 \<le> N"
  shows "\<exists>ids w'.
     allocate_n N w = (Inr ids, w') \<and>
     ids = map (\<lambda>k. invoice_prefix @ ''-'' @ format_03d (int k)) [1 ..< Suc N] \<and>
     distinct ids \<and>
     map (\<lambda>s. nat_of_digits (drop 4 s)) ids = [1 ..< Suc N] \<and>
     (\<forall>k. 3 \<le> length (format_03d (int k)) \<and> list_all isdigit (format_03d (int k))) \<and>
     (\<forall>k. 100 \<le> k \<longrightarrow> format_03d (int k) = digits_of_nat k) \<and>
     w' = w\<lparr>counter_file := counter_at (int N)\<rparr>"
proof -
  obtain m where N: "N = Suc m" using assms(2) by (cases N) auto
  let ?f = "\<lambda>k. invoice_prefix @ ''-'' @ format_03d (int k)"
  let ?w1 = "w\<lparr>counter_file := counter_at (int 1)\<rparr>"
  have g: "get_next_invoice_number w = (Inr (?f 1), ?w1)"
    using get_next_absent [OF assms(1)] by (simp add: invoice_prefix_def)
  have "counter_file ?w1 = counter_at (int 1)" by simp
  from allocate_n_counter_at [OF this, of m]
  have a: "allocate_n m ?w1 = (Inr (map ?f [Suc 1 ..< Suc (1 + m)]), w\<lparr>counter_file := counter_at (int (1 + m))\<rparr>)"
    by (simp add: invoice_prefix_def)
  have l: "[1 ..< Suc N] = 1 # [Suc 1 ..< Suc (1 + m)]"
    using N by (simp add: upt_conv_Cons)
  have run: "allocate_n N w = (Inr (map ?f [1 ..< Suc N]), w\<lparr>counter_file := counter_at (int N)\<rparr>)"
    unfolding N allocate_n.simps g prod.case sum.case a l [unfolded N]
    by (simp del: upt_Suc)
  have readback: "map (\<lambda>s. nat_of_digits (drop 4 s)) (map ?f ks) = ks" for ks
    by (induction ks) (simp_all add: invoice_prefix_def nat_of_format_03d)
  have "inj_on ?f A" for A
    by (rule inj_onI) (metis nat_of_format_03d same_append_eq)
  then have d: "distinct (map ?f [1 ..< Suc N])"
    by (simp add: distinct_map)
  show ?thesis
    using run readback d length_format_03d format_03d_all_digits format_03d_large by blast
qed


theorem allocate_sequence_witness:
  "counter_file empty_world = None \<and> (1::nat) \<le> 3 \<and>
   allocate_n 3 empty_world =
     (Inr [''INV-001'', ''INV-002'', ''INV-003''], empty_world\<lparr>counter_file := counter_at 3\<rparr>)"
proof -
  have h: "counter_file empty_world = None" by (simp add: empty_world_def)
  have e: "map (\<lambda>k. invoice_prefix @ ''-'' @ format_03d (int k)) [1 ..< Suc 3]
      = [''INV-001'', ''INV-002'', ''INV-003'']"
    by code_simp
  show ?thesis
    using allocate_sequence [OF h, of 3] h unfolding e by auto
qed

text \<open>
  Claim C3. \<^verbatim>\<open>peek_next_invoice_number\<close> leaves the world as it found it, whatever the
  counter file holds. So \<open>k\<close> peeks in a row all give the same result and leave the counter
  file unchanged, and \<^verbatim>\<open>get_next_invoice_number\<close> after them does what it would have done
  without them. With no counter file the peek returns the identifier for \<open>0 + 1\<close>; with a
  counter file whose \<^verbatim>\<open>last_number\<close> is the int \<open>n\<close> it returns the identifier for
  \<open>n + 1\<close>. Whenever a peek returns an identifier, it is the one the next
  \<^verbatim>\<open>get_next_invoice_number\<close> returns.
\<close>

theorem peek_reads_only:
  "snd (peek_next_invoice_number w) = w \<and>
   peek_n k w = (replicate k (fst (peek_next_invoice_number w)), w) \<and>
   get_next_invoice_number (snd (peek_n k w)) = get_next_invoice_number w \<and>
   (counter_file w = None \<longrightarrow>
      fst (peek_next_invoice_number w) = Inr (invoice_prefix @ ''-'' @ format_03d (0 + 1))) \<and>
   (\<forall>kvs n. counter_file w = Some (Parsed (JObj kvs)) \<and>
        map_of kvs ''last_number'' = Some (JNum (PInt n)) \<longrightarrow>
      fst (peek_next_invoice_number w) = Inr (invoice_prefix @ ''-'' @ format_03d (n + 1))) \<and>
   (\<forall>s. fst (peek_next_invoice_number w) = Inr s \<longrightarrow> fst (get_next_invoice_number w) = Inr s)"
proof -
  have one: "format_03d (0 + 1) = ''001''" by code_simp
  have absent: "counter_file w = None \<Longrightarrow>
      fst (peek_next_invoice_number w) = Inr (invoice_prefix @ ''-'' @ format_03d (0 + 1))"
    unfolding one by (simp add: peek_next_invoice_number_def)
  have present: "fst (peek_next_invoice_number w) = Inr (invoice_prefix @ ''-'' @ format_03d (n + 1))"
    if "counter_file w = Some (Parsed (JObj kvs))" "map_of kvs ''last_number'' = Some (JNum (PInt n))"
    for kvs n
    using that
    by (simp add: peek_next_invoice_number_def json_load_def getitem_def add_one_def ebind_def
        py_add_int_one format_json_03d_def)
  show ?thesis
    using peek_world [of w] peek_n_eq [of k w] peek_value_is_next [of w] absent present
    by auto
qed

theorem peek_reads_only_witness:
  "peek_n 3 (empty_world\<lparr>counter_file := counter_at 41\<rparr>)
     = (replicate 3 (Inr ''INV-042''), empty_world\<lparr>counter_file := counter_at 41\<rparr>) \<and>
   fst (get_next_invoice_number (snd (peek_n 3 (empty_world\<lparr>counter_file := counter_at 41\<rparr>))))
     = Inr ''INV-042'' \<and>
   fst (peek_next_invoice_number empty_world) = Inr ''INV-001''"
proof -
  let ?w = "empty_world\<lparr>counter_file := counter_at 41\<rparr>"
  have c: "counter_file ?w = Some (Parsed (JObj [(''last_number'', JNum (PInt 41))]))"
    by (simp add: counter_at_def)
  have m: "map_of [(''last_number'', JNum (PInt 41))] ''last_number'' = Some (JNum (PInt 41))"
    by simp
  have f: "invoice_prefix @ ''-'' @ format_03d (41 + 1) = ''INV-042''" by code_simp
  have g: "invoice_prefix @ ''-'' @ format_03d (0 + 1) = ''INV-001''" by code_simp
  have n: "counter_file empty_world = None" by (simp add: empty_world_def)
  have p: "fst (peek_next_invoice_number ?w) = Inr ''INV-042''"
    using peek_reads_only [of ?w 3] c m f by auto
  have q: "fst (peek_next_invoice_number empty_world) = Inr ''INV-001''"
    using peek_reads_only [of empty_world 0] n g by auto
  show ?thesis
    using peek_reads_only [of ?w 3] p q by auto
qed

end
